theory Spec2Isabelle
  imports Complex_Main
begin

section \<open>Python strings\<close>

text \<open>
  A Python \<^verbatim>\<open>str\<close> is modelled by a \<^typ>\<open>string\<close>: the bytes of its UTF-8
  encoding. Equality, concatenation, \<^verbatim>\<open>startswith\<close>, \<^verbatim>\<open>endswith\<close>,
  \<^verbatim>\<open>in\<close>, and \<^verbatim>\<open>count\<close>, \<^verbatim>\<open>split\<close> and \<^verbatim>\<open>strip\<close> at an ASCII
  character give the same on the encodings as on the characters. \<^verbatim>\<open>str.lower\<close>
  does not work byte by byte: it folds every cased character of Unicode. It is a
  parameter, the field \<open>lower\<close> of the standard library, next to the two decoders that
  \<^verbatim>\<open>read_file\<close> calls (for them \<open>None\<close> is their exception). Nothing below
  depends on which function \<open>lower\<close> is.
\<close>

record stdlib =
  lower :: "string \<Rightarrow> string"
  b64decode :: "string \<Rightarrow> string option"
  decode_utf8 :: "string \<Rightarrow> string option"

text \<open>\<^verbatim>\<open>s.startswith(p)\<close>, \<^verbatim>\<open>s.endswith(e)\<close> and \<^verbatim>\<open>q in s\<close>.\<close>

fun startswith :: "string \<Rightarrow> string \<Rightarrow> bool" where
  "startswith s [] = True"
| "startswith [] (p # ps) = False"
| "startswith (c # s) (p # ps) = (c = p \<and> startswith s ps)"

definition endswith :: "string \<Rightarrow> string \<Rightarrow> bool" where
  "endswith s e = startswith (rev s) (rev e)"

fun str_in :: "string \<Rightarrow> string \<Rightarrow> bool" where
  "str_in q [] = (q = [])"
| "str_in q (c # s) = (startswith (c # s) q \<or> str_in q s)"

text \<open>\<^verbatim>\<open>s.split(sep)\<close> for a one-character separator: never the empty list.\<close>

fun split :: "char \<Rightarrow> string \<Rightarrow> string list" where
  "split sep [] = [[]]"
| "split sep (c # cs) =
     (if c = sep then [] # split sep cs
      else (case split sep cs of
              w # ws \<Rightarrow> (c # w) # ws
            | [] \<Rightarrow> [[c]]))"

text \<open>\<^verbatim>\<open>s.strip(c)\<close> and \<^verbatim>\<open>s.lstrip(c)\<close> for a one-character set.\<close>

definition lstrip :: "char \<Rightarrow> string \<Rightarrow> string" where
  "lstrip c s = dropWhile (\<lambda>x. x = c) s"

definition strip :: "char \<Rightarrow> string \<Rightarrow> string" where
  "strip c s = rev (lstrip c (rev (lstrip c s)))"

text \<open>\<^verbatim>\<open>s.count(c)\<close> for a one-character argument.\<close>

definition str_count :: "string \<Rightarrow> char \<Rightarrow> nat" where
  "str_count s c = length (filter (\<lambda>x. x = c) s)"

section \<open>The storage client: data model\<close>

text \<open>
  \<^verbatim>\<open>SearchOptions\<close> (github.py, lines 16-26). The pydantic model validates on
  construction: \<^verbatim>\<open>max_results\<close> carries \<^verbatim>\<open>ge=1\<close>, and the field
  validator of \<^verbatim>\<open>extension\<close> raises when the value is not \<^verbatim>\<open>None\<close> and does
  not start with a dot. Either failure surfaces as pydantic's \<^verbatim>\<open>ValidationError\<close>.
\<close>

record SearchOptions =
  extension :: "string option"
  max_results :: int
  include_content :: bool
  search_in_content :: bool

text \<open>\<^verbatim>\<open>FileSearchResultModel\<close> (lines 29-37); the fields carry the prefix \<open>fsr_\<close>.\<close>

record FileSearchResultModel =
  fsr_path :: string
  fsr_name :: string
  fsr_type :: string
  fsr_size :: "int option"
  fsr_content :: "string option"
  fsr_sha :: "string option"
  fsr_url :: "string option"
  fsr_score :: "real option"

section \<open>Relevance score\<close>

text \<open>
  \<^verbatim>\<open>GitHubClient._calculate_score\<close> (lines 252-274), with the standard library
  for \<^verbatim>\<open>str.lower\<close>. The Python value is a float
  that only ever holds small integers, which floats represent exactly; it is a
  \<^typ>\<open>real\<close> here. The loop over the extensions adds 5 at the first one the file
  name ends with and breaks.
\<close>

definition common_extensions :: "string list" where
  "common_extensions = [''.py'', ''.ts'', ''.js'', ''.md'', ''.json'', ''.tsx'', ''.jsx'']"

fun extension_bonus :: "string list \<Rightarrow> string \<Rightarrow> real \<Rightarrow> real" where
  "extension_bonus [] filename score = score"
| "extension_bonus (ext # exts) filename score =
     (if endswith filename ext then score + 5
      else extension_bonus exts filename score)"

definition calculate_score :: "stdlib \<Rightarrow> string \<Rightarrow> string \<Rightarrow> string \<Rightarrow> real" where
  "calculate_score lib path filename query =
     (let ql = lower lib query;
          fnl = lower lib filename;
          pl = lower lib path;
          score = 0;
          score = (if fnl = ql then score + 100
                   else if startswith fnl ql then score + 80
                   else if str_in ql fnl then score + 60
                   else if str_in ql pl then score + 40
                   else score);
          depth = int (str_count path CHR ''/'');
          score = score + real_of_int (max 0 (20 - depth))
      in extension_bonus common_extensions filename score)"

text \<open>
  The score as the specification words it: the match class, the depth bonus and the
  flat extension bonus.
\<close>

definition match_points :: "stdlib \<Rightarrow> string \<Rightarrow> string \<Rightarrow> string \<Rightarrow> real" where
  "match_points lib path filename query =
     (if lower lib filename = lower lib query then 100
      else if startswith (lower lib filename) (lower lib query) then 80
      else if str_in (lower lib query) (lower lib filename) then 60
      else if str_in (lower lib query) (lower lib path) then 40
      else 0)"

definition depth_bonus :: "string \<Rightarrow> real" where
  "depth_bonus path = real_of_int (max 0 (20 - int (str_count path CHR ''/'')))"

definition source_extension_bonus :: "string \<Rightarrow> real" where
  "source_extension_bonus filename =
     (if list_ex (endswith filename) common_extensions then 5 else 0)"

definition spec_score :: "stdlib \<Rightarrow> string \<Rightarrow> string \<Rightarrow> string \<Rightarrow> real" where
  "spec_score lib path filename query =
     match_points lib path filename query + depth_bonus path + source_extension_bonus filename"

text \<open>
  \<^verbatim>\<open>results.sort(key=lambda x: x.score or 0, reverse=True)\<close> (line 202): Python's
  sort is stable, also under \<^verbatim>\<open>reverse=True\<close>, so it is the stable insertion
  sort on the negated key.
\<close>

definition score_or_0 :: "FileSearchResultModel \<Rightarrow> real" where
  "score_or_0 x = (case fsr_score x of None \<Rightarrow> 0 | Some s \<Rightarrow> s)"

definition sort_results :: "FileSearchResultModel list \<Rightarrow> FileSearchResultModel list" where
  "sort_results results = sort_key (\<lambda>x. - score_or_0 x) results"


section \<open>The storage client: provider, errors, requests\<close>

text \<open>
  The exceptions the client raises or lets through. The exceptions of the provider
  connection are gidgethub's: \<^verbatim>\<open>BadRequest\<close> is what \<^verbatim>\<open>getitem\<close> raises for
  a 4xx answer, a path that does not exist (404) among them; \<^verbatim>\<open>GraphQLException\<close>
  is the one exception that \<^verbatim>\<open>read_file\<close> and \<^verbatim>\<open>get_directory_structure\<close>
  catch; every other one passes through uncaught. \<open>ValidationError\<close> is pydantic's,
  \<open>TypeError\<close> and \<open>AttributeError\<close> are the interpreter's, \<open>BinasciiError\<close>
  and \<open>UnicodeDecodeError\<close> those of the decoding at lines 121-122.
\<close>

datatype provider_exc = GraphQLException | BadRequest | OtherException

datatype error =
    FileNotFoundError string
  | ValueError string
  | TypeError
  | AttributeError
  | ValidationError
  | ProviderError provider_exc
  | BinasciiError
  | UnicodeDecodeError

text \<open>
  A call of \<^verbatim>\<open>getitem\<close> as the client writes it: the endpoint, and the
  \<^verbatim>\<open>params\<close> keyword argument when the call passes one (\<open>None\<close> when it does
  not).
\<close>

datatype param = QStr string | QInt int

record request =
  endpoint :: string
  params :: "(string \<times> param) list option"

text \<open>
  The JSON the provider answers with, by the keys the client reads. An entry of the
  contents API always has \<^verbatim>\<open>type\<close>, \<^verbatim>\<open>name\<close> and \<^verbatim>\<open>path\<close>; the other keys
  may be missing. The contents endpoint answers with one object for a single file and
  with an array for a directory (lines 216-218); the tree and the search endpoints answer
  with an object whose \<^verbatim>\<open>tree\<close> or \<^verbatim>\<open>items\<close> key may be missing.
\<close>

record contents_entry =
  ce_type :: string
  ce_name :: string
  ce_path :: string
  ce_encoding :: "string option"
  ce_content :: "string option"
  ce_sha :: "string option"
  ce_size :: "int option"
  ce_url :: "string option"
  ce_git_url :: "string option"
  ce_html_url :: "string option"
  ce_download_url :: "string option"

record tree_entry =
  te_path :: string
  te_type :: string
  te_size :: "int option"
  te_sha :: "string option"
  te_url :: "string option"

record search_item =
  si_name :: string
  si_path :: string
  si_sha :: "string option"
  si_url :: "string option"
  si_score :: "real option"

datatype response =
    ContentsObject contents_entry
  | ContentsArray "contents_entry list"
  | TreeObject "tree_entry list option"
  | SearchObject "search_item list option"

text \<open>
  \<^verbatim>\<open>GitHubClient\<close> (lines 92-99): \<open>gh\<close> is the connection, what the provider
  answers to a request that reaches it.
\<close>

record GitHubClient =
  owner :: string
  repo :: string
  token :: "string option"
  default_ref :: string
  gh :: "request \<Rightarrow> provider_exc + response"

text \<open>
  \<^verbatim>\<open>self._gh.getitem\<close>. The connection is always gidgethub's
  \<^verbatim>\<open>GitHubAPI\<close> (line 99), whose \<^verbatim>\<open>getitem(url, url_vars, *, accept, jwt,
  oauth_token, extra_headers)\<close> has no \<^verbatim>\<open>params\<close> keyword and takes no other
  keywords: a call that passes \<^verbatim>\<open>params=\<close> raises \<^verbatim>\<open>TypeError\<close> before
  any request is sent. A call without it reaches the provider, and an exception of the
  connection comes back as it is.
\<close>

definition getitem :: "GitHubClient \<Rightarrow> request \<Rightarrow> error + response" where
  "getitem c req =
     (case params req of
        Some _ \<Rightarrow> Inl TypeError
      | None \<Rightarrow>
          (case gh c req of
             Inl e \<Rightarrow> Inl (ProviderError e)
           | Inr data \<Rightarrow> Inr data))"

text \<open>\<^verbatim>\<open>GitHubFileContentModel\<close> (lines 40-51), fields prefixed \<open>gf_\<close>.\<close>

record GitHubFileContentModel =
  gf_type :: string
  gf_encoding :: string
  gf_content :: string
  gf_sha :: string
  gf_size :: int
  gf_name :: string
  gf_path :: string
  gf_url :: string
  gf_git_url :: string
  gf_html_url :: string
  gf_download_url :: "string option"

text \<open>
  \<^verbatim>\<open>GitHubFileContentModel(**data)\<close> (line 115): unpacking an array with
  \<^verbatim>\<open>**\<close> is a \<^verbatim>\<open>TypeError\<close>; an object that lacks a required field fails
  pydantic's validation.
\<close>

definition GitHubFileContentModel_init :: "response \<Rightarrow> error + GitHubFileContentModel" where
  "GitHubFileContentModel_init data =
     (case data of
        ContentsArray _ \<Rightarrow> Inl TypeError
      | TreeObject _ \<Rightarrow> Inl ValidationError
      | SearchObject _ \<Rightarrow> Inl ValidationError
      | ContentsObject e \<Rightarrow>
          (case (ce_encoding e, ce_content e, ce_sha e, ce_size e, ce_url e,
                 ce_git_url e, ce_html_url e) of
             (Some enc, Some cont, Some sha, Some sz, Some url, Some gurl, Some hurl) \<Rightarrow>
               Inr \<lparr>gf_type = ce_type e, gf_encoding = enc, gf_content = cont, gf_sha = sha,
                    gf_size = sz, gf_name = ce_name e, gf_path = ce_path e, gf_url = url,
                    gf_git_url = gurl, gf_html_url = hurl,
                    gf_download_url = ce_download_url e\<rparr>
           | _ \<Rightarrow> Inl ValidationError))"

section \<open>read_file\<close>

text \<open>\<^verbatim>\<open>ref or self.default_ref\<close>: \<^verbatim>\<open>None\<close> and the empty string are falsy.\<close>

definition ref_or_default :: "GitHubClient \<Rightarrow> string option \<Rightarrow> string" where
  "ref_or_default c ref =
     (case ref of None \<Rightarrow> default_ref c
      | Some r \<Rightarrow> if r = [] then default_ref c else r)"

definition contents_endpoint :: "GitHubClient \<Rightarrow> string \<Rightarrow> string" where
  "contents_endpoint c path = ''/repos/'' @ owner c @ ''/'' @ repo c @ ''/contents/'' @ path"

text \<open>The request of \<^verbatim>\<open>read_file\<close> (lines 108-111): \<^verbatim>\<open>getitem(endpoint)\<close>.\<close>

definition read_file_request :: "GitHubClient \<Rightarrow> string \<Rightarrow> string option \<Rightarrow> request" where
  "read_file_request c path ref =
     (let ref = ref_or_default c ref;
          endpoint = contents_endpoint c path
      in \<lparr>endpoint = endpoint, params = None\<rparr>)"

definition read_file :: "stdlib \<Rightarrow> GitHubClient \<Rightarrow> string \<Rightarrow> string option \<Rightarrow> error + string" where
  "read_file lib c path ref =
     (let request = read_file_request c path ref;
          ref = ref_or_default c ref in
      case getitem c request of
        Inl (ProviderError GraphQLException) \<Rightarrow>
          Inl (FileNotFoundError (''File not found: '' @ path @ '' (ref: '' @ ref @ '')''))
      | Inl e \<Rightarrow> Inl e
      | Inr data \<Rightarrow>
          (case GitHubFileContentModel_init data of
             Inl e \<Rightarrow> Inl e
           | Inr gh_file \<Rightarrow>
               if gf_type gh_file \<noteq> ''file'' then
                 Inl (ValueError (''Path '' @ path @ '' is not a file, got type '' @ gf_type gh_file))
               else if gf_encoding gh_file \<noteq> ''base64'' then
                 Inl (ValueError (''Unsupported encoding: '' @ gf_encoding gh_file))
               else
                 (case b64decode lib (gf_content gh_file) of
                    None \<Rightarrow> Inl BinasciiError
                  | Some content_bytes \<Rightarrow>
                      (case decode_utf8 lib content_bytes of
                         None \<Rightarrow> Inl UnicodeDecodeError
                       | Some content_str \<Rightarrow> Inr content_str))))"


section \<open>SearchOptions\<close>

text \<open>
  The validator \<^verbatim>\<open>extension_must_start_with_dot\<close> (lines 22-26) and the
  construction of the model: pydantic runs the validator on the given extension, checks
  \<^verbatim>\<open>ge=1\<close> on \<^verbatim>\<open>max_results\<close>, and raises one \<^verbatim>\<open>ValidationError\<close> when
  either fails. A caller that omits an argument passes the default of the field
  (\<^verbatim>\<open>None\<close>, 100, \<^verbatim>\<open>False\<close>, \<^verbatim>\<open>False\<close>).
\<close>

definition extension_must_start_with_dot :: "string option \<Rightarrow> error + string option" where
  "extension_must_start_with_dot v =
     (if v \<noteq> None \<and> \<not> startswith (the v) ''.'' then
        Inl (ValueError (''extension must start with '' @ [CHR 0x27, CHR ''.'', CHR 0x27]))
      else Inr v)"

definition SearchOptions_init :: "string option \<Rightarrow> int \<Rightarrow> bool \<Rightarrow> bool \<Rightarrow> error + SearchOptions" where
  "SearchOptions_init ext mr ic sic =
     (case extension_must_start_with_dot ext of
        Inl _ \<Rightarrow> Inl ValidationError
      | Inr v \<Rightarrow>
          if \<not> mr \<ge> 1 then Inl ValidationError
          else Inr \<lparr>extension = v, max_results = mr, include_content = ic,
                    search_in_content = sic\<rparr>)"

section \<open>search_files\<close>

text \<open>\<^verbatim>\<open>" ".join(parts)\<close>.\<close>

fun join :: "string \<Rightarrow> string list \<Rightarrow> string" where
  "join sep [] = []"
| "join sep [x] = x"
| "join sep (x # y # ys) = x @ sep @ join sep (y # ys)"

text \<open>
  Lines 154-161 and 191-196: with \<^verbatim>\<open>include_content\<close> the content is read at
  the default revision, and any exception of the read leaves \<^verbatim>\<open>None\<close>. Without
  it the field keeps its default \<^verbatim>\<open>None\<close>.
\<close>

definition fetch_content :: "stdlib \<Rightarrow> GitHubClient \<Rightarrow> SearchOptions \<Rightarrow> string \<Rightarrow> string option" where
  "fetch_content lib c opts path =
     (if include_content opts then
        (case read_file lib c path (Some (default_ref c)) of
           Inr content \<Rightarrow> Some content
         | Inl e \<Rightarrow> None)
      else None)"

text \<open>Remote mode (lines 132-163): the request and one result per item.\<close>

definition search_code_request :: "GitHubClient \<Rightarrow> string \<Rightarrow> SearchOptions \<Rightarrow> request" where
  "search_code_request c query opts =
     (let query_parts = [query, ''repo:'' @ owner c @ ''/'' @ repo c];
          query_parts =
            (case extension opts of
               None \<Rightarrow> query_parts
             | Some ext \<Rightarrow>
                 if ext = [] then query_parts
                 else query_parts @ [''extension:'' @ lstrip CHR ''.'' ext]);
          q = join '' '' query_parts
      in \<lparr>endpoint = ''/search/code'',
          params = Some [(''q'', QStr q), (''per_page'', QInt (max_results opts))]\<rparr>)"

definition search_item_result :: "stdlib \<Rightarrow> GitHubClient \<Rightarrow> SearchOptions \<Rightarrow> search_item \<Rightarrow> FileSearchResultModel" where
  "search_item_result lib c opts item =
     (let name = si_name item;
          path = si_path item;
          sha = si_sha item;
          score = si_score item;
          fsr = \<lparr>fsr_path = path, fsr_name = name, fsr_type = ''file'', fsr_size = None,
                 fsr_content = None, fsr_sha = sha, fsr_url = si_url item, fsr_score = score\<rparr>
      in fsr\<lparr>fsr_content := fetch_content lib c opts path\<rparr>)"

text \<open>
  Local mode (lines 165-203). The loop over the tree skips what is not a blob, what
  does not end with the extension (a \<^verbatim>\<open>None\<close> or empty extension is falsy and
  filters nothing) and what does not contain the query; it appends the result, counts
  it, and breaks once the count reaches \<^verbatim>\<open>max_results\<close>.
\<close>

definition tree_request :: "GitHubClient \<Rightarrow> request" where
  "tree_request c =
     \<lparr>endpoint = ''/repos/'' @ owner c @ ''/'' @ repo c @ ''/git/trees/'' @ default_ref c,
      params = Some [(''recursive'', QStr ''1'')]\<rparr>"

definition tree_item_result :: "stdlib \<Rightarrow> GitHubClient \<Rightarrow> string \<Rightarrow> SearchOptions \<Rightarrow> tree_entry \<Rightarrow> FileSearchResultModel" where
  "tree_item_result lib c query opts item =
     (let path = te_path item;
          filename = last (split CHR ''/'' path);
          fsr = \<lparr>fsr_path = path, fsr_name = filename, fsr_type = ''file'',
                 fsr_size = te_size item, fsr_content = None, fsr_sha = te_sha item,
                 fsr_url = te_url item,
                 fsr_score = Some (calculate_score lib path filename query)\<rparr>
      in fsr\<lparr>fsr_content := fetch_content lib c opts path\<rparr>)"

fun scan_tree :: "stdlib \<Rightarrow> GitHubClient \<Rightarrow> string \<Rightarrow> SearchOptions \<Rightarrow> tree_entry list \<Rightarrow> int \<Rightarrow>
    FileSearchResultModel list \<Rightarrow> FileSearchResultModel list" where
  "scan_tree lib c query opts [] count results = results"
| "scan_tree lib c query opts (item # tree) count results =
     (if te_type item \<noteq> ''blob'' then scan_tree lib c query opts tree count results
      else
        let path = te_path item in
        if (case extension opts of None \<Rightarrow> False | Some ext \<Rightarrow> ext \<noteq> [] \<and> \<not> endswith path ext)
        then scan_tree lib c query opts tree count results
        else
          let filename = last (split CHR ''/'' path);
              query_lower = lower lib query in
          if \<not> str_in query_lower (lower lib path)
             \<and> \<not> str_in query_lower (lower lib filename)
          then scan_tree lib c query opts tree count results
          else
            let results = results @ [tree_item_result lib c query opts item];
                count = count + 1 in
            if count \<ge> max_results opts then results
            else scan_tree lib c query opts tree count results)"

definition search_files :: "stdlib \<Rightarrow> GitHubClient \<Rightarrow> string \<Rightarrow> SearchOptions \<Rightarrow> error + FileSearchResultModel list" where
  "search_files lib c query opts =
     (if search_in_content opts then
        (case getitem c (search_code_request c query opts) of
           Inl e \<Rightarrow> Inl e
         | Inr (ContentsArray _) \<Rightarrow> Inl AttributeError
         | Inr (SearchObject (Some items)) \<Rightarrow> Inr (map (search_item_result lib c opts) items)
         | Inr _ \<Rightarrow> Inr [])
      else
        (case getitem c (tree_request c) of
           Inl e \<Rightarrow> Inl e
         | Inr (ContentsArray _) \<Rightarrow> Inl AttributeError
         | Inr (TreeObject (Some tree)) \<Rightarrow>
             Inr (sort_results (scan_tree lib c query opts tree 0 []))
         | Inr _ \<Rightarrow> Inr (sort_results [])))"

section \<open>get_directory_structure\<close>

text \<open>
  Lines 205-250. One result per entry of an array, or one result for a single object;
  an object of another endpoint has neither \<^verbatim>\<open>name\<close> nor \<^verbatim>\<open>path\<close> and fails
  the validation of \<^verbatim>\<open>FileSearchResultModel\<close>.
\<close>

definition directory_request :: "GitHubClient \<Rightarrow> string \<Rightarrow> string option \<Rightarrow> request" where
  "directory_request c path ref =
     (let ref = ref_or_default c ref;
          endpoint = contents_endpoint c path
      in \<lparr>endpoint = endpoint, params = Some [(''ref'', QStr ref)]\<rparr>)"

definition entry_result :: "contents_entry \<Rightarrow> FileSearchResultModel" where
  "entry_result item =
     (let name = ce_name item;
          item_type = ce_type item;
          size = ce_size item;
          sha = ce_sha item;
          url = ce_url item
      in \<lparr>fsr_path = ce_path item, fsr_name = name,
          fsr_type = (if item_type = ''file'' then ''file'' else ''directory''),
          fsr_size = size, fsr_content = None, fsr_sha = sha, fsr_url = url,
          fsr_score = None\<rparr>)"

definition get_directory_structure :: "GitHubClient \<Rightarrow> string \<Rightarrow> string option \<Rightarrow> error + FileSearchResultModel list" where
  "get_directory_structure c path ref =
     (let request = directory_request c path ref;
          ref = ref_or_default c ref in
      case getitem c request of
        Inl (ProviderError GraphQLException) \<Rightarrow>
          Inl (FileNotFoundError
                 (''Directory or file not found: '' @ path @ '' (ref: '' @ ref @ '')''))
      | Inl e \<Rightarrow> Inl e
      | Inr (ContentsArray resp) \<Rightarrow> Inr (map entry_result resp)
      | Inr (ContentsObject resp) \<Rightarrow> Inr [entry_result resp]
      | Inr _ \<Rightarrow> Inl ValidationError)"


section \<open>CodeSourceService.new\<close>

text \<open>
  get_code_source.py, lines 13-31. \<^verbatim>\<open>urlparse\<close> of the standard library is a
  parameter; of its result the code reads \<^verbatim>\<open>netloc\<close> and \<^verbatim>\<open>path\<close>. Of the
  configuration it reads \<^verbatim>\<open>conf.github.token\<close>. The connection the client opens
  in its constructor is the parameter \<open>connection\<close>.
\<close>

record ParseResult =
  netloc :: string
  url_path :: string

record GithubConfig =
  gc_token :: string

record AppConfig =
  github :: GithubConfig

record CodeSourceService =
  code_client :: GitHubClient

definition GitHubClient_init :: "(request \<Rightarrow> provider_exc + response) \<Rightarrow> string \<Rightarrow> string \<Rightarrow> string option \<Rightarrow> string \<Rightarrow> GitHubClient" where
  "GitHubClient_init connection owner' repo' token' default_ref' =
     \<lparr>owner = owner', repo = repo', token = token', default_ref = default_ref',
      gh = connection\<rparr>"

definition new :: "(string \<Rightarrow> ParseResult) \<Rightarrow> (request \<Rightarrow> provider_exc + response) \<Rightarrow> AppConfig \<Rightarrow> string \<Rightarrow> string \<Rightarrow> string \<Rightarrow> error + CodeSourceService" where
  "new urlparse connection conf source path ref =
     (if source = ''github'' then
        let parsed = urlparse path in
        if netloc parsed \<noteq> ''github.com'' then
          Inl (ValueError (''Invalid github url: '' @ path))
        else
          let parts = split CHR ''/'' (strip CHR ''/'' (url_path parsed)) in
          if length parts < 2 then
            Inl (ValueError (''Invalid github path: '' @ path))
          else
            (case take 2 parts of
               [owner', repo'] \<Rightarrow>
                 Inr \<lparr>code_client =
                        GitHubClient_init connection owner' repo'
                          (Some (gc_token (github conf))) ref\<rparr>
             | _ \<Rightarrow> Inl (ValueError ''not enough values to unpack''))
      else Inl (ValueError (''Unknown source: '' @ source)))"

section \<open>The exploration state\<close>

text \<open>
  types.py. The feedback classes (lines 27-54) are plain dataclasses: the generated
  constructor binds the arguments to the fields, raises \<^verbatim>\<open>TypeError\<close> when an
  argument without a default is missing, and checks no value against its annotation.
  A Python value is a \<open>pyval\<close>; an argument is \<open>None\<close> when the call omits it.
\<close>

datatype pyval = PyNone | PyStr string | PyInt int | PyBool bool

datatype UserFeedback =
    UserFeedbackAccept pyval pyval
  | UserFeedbackReject pyval pyval
  | UserFeedbackRefine pyval pyval pyval pyval
  | UserFeedbackFinish pyval

definition default_None :: "pyval option \<Rightarrow> pyval" where
  "default_None arg = (case arg of None \<Rightarrow> PyNone | Some v \<Rightarrow> v)"

definition UserFeedbackAccept_init :: "pyval option \<Rightarrow> pyval option \<Rightarrow> error + UserFeedback" where
  "UserFeedbackAccept_init action reason =
     (case action of
        None \<Rightarrow> Inl TypeError
      | Some a \<Rightarrow> Inr (UserFeedbackAccept a (default_None reason)))"

definition UserFeedbackReject_init :: "pyval option \<Rightarrow> pyval option \<Rightarrow> error + UserFeedback" where
  "UserFeedbackReject_init action reason =
     (case (action, reason) of
        (Some a, Some r) \<Rightarrow> Inr (UserFeedbackReject a r)
      | _ \<Rightarrow> Inl TypeError)"

definition UserFeedbackRefine_init :: "pyval option \<Rightarrow> pyval option \<Rightarrow> pyval option \<Rightarrow> pyval option \<Rightarrow> error + UserFeedback" where
  "UserFeedbackRefine_init action userUnderstanding reason nextFile =
     (case (action, userUnderstanding) of
        (Some a, Some u) \<Rightarrow>
          Inr (UserFeedbackRefine a u (default_None reason) (default_None nextFile))
      | _ \<Rightarrow> Inl TypeError)"

definition UserFeedbackFinish_init :: "pyval option \<Rightarrow> error + UserFeedback" where
  "UserFeedbackFinish_init action =
     (case action of
        None \<Rightarrow> Inl TypeError
      | Some a \<Rightarrow> Inr (UserFeedbackFinish a))"

text \<open>
  The annotations of the four classes, as predicates on the stored values:
  \<^verbatim>\<open>str\<close>, \<^verbatim>\<open>Optional[str]\<close> and the literal tags.
\<close>

definition is_str :: "pyval \<Rightarrow> bool" where
  "is_str v = (case v of PyStr _ \<Rightarrow> True | _ \<Rightarrow> False)"

definition is_optional_str :: "pyval \<Rightarrow> bool" where
  "is_optional_str v = (case v of PyStr _ \<Rightarrow> True | PyNone \<Rightarrow> True | _ \<Rightarrow> False)"

fun well_shaped :: "UserFeedback \<Rightarrow> bool" where
  "well_shaped (UserFeedbackAccept a r) = (a = PyStr ''accept'' \<and> is_optional_str r)"
| "well_shaped (UserFeedbackReject a r) = (a = PyStr ''reject'' \<and> is_str r)"
| "well_shaped (UserFeedbackRefine a u r n) =
     (a = PyStr ''refine'' \<and> is_str u \<and> is_optional_str r \<and> is_optional_str n)"
| "well_shaped (UserFeedbackFinish a) = (a = PyStr ''finish'')"

text \<open>The other classes of types.py, with their annotated types.\<close>

record FileAnalysis =
  understanding :: string

record CurrentFile =
  cf_name :: string
  analysis :: "FileAnalysis option"

record NextFile =
  nf_name :: string
  nf_reason :: string

datatype FileStatus = Pending | Ignored | Done

datatype FileType = File | Directory

record FileItem =
  fi_path :: string
  status :: FileStatus
  fi_type :: FileType
  fi_understanding :: "string option"

datatype FeedbackAction = accept | reject | refine | finish

record HistoryEntry =
  filePath :: string
  feedback_action :: FeedbackAction
  timestamp :: int
  he_reason :: "string option"

record Basic =
  repo_name :: string
  main_goal :: string
  files :: "FileItem list"
  specific_areas :: "string option"
  github_url :: "string option"
  github_ref :: "string option"
  ask_user :: "string option"
  previous_wrong_path :: "string option"

datatype CallToAction = improve_basic_input | cta_user_feedback | cta_finish | null

typedecl AnyMessage

record State =
  messages :: "AnyMessage list"
  basic :: Basic
  history :: "HistoryEntry list"
  current_file :: "CurrentFile option"
  next_file :: "NextFile option"
  user_feedback :: "UserFeedback option"
  reduced_output :: "string option"
  completed :: bool
  call_to_action :: "CallToAction option"
  last_heartbeat :: "int option"


section \<open>Applying feedback\<close>

text \<open>
  Modelled from the spec: the repository declares the state and the feedback classes
  but has no function that applies a feedback; \<open>Feedback\<close>, \<open>phase\<close>,
  \<open>phase_of\<close>, \<open>mark_file\<close> and \<open>apply_feedback\<close> follow sections 3, 4.2 and 7
  of the specification over the \<open>State\<close> of types.py. The phases are read off the
  fields as section 4.2 words them (no CurrentFile set; CurrentFile set, no understanding
  yet; understanding recorded; completed). The clock is the argument \<open>now\<close>. The
  heartbeat lock of section 5 guards the call and is not part of the transition.
\<close>

text \<open>Modelled from the spec: the feedback variants of section 3, as the sum type of section 9.\<close>

datatype Feedback =
    Accept "string option"
  | Reject string
  | Refine string "string option" "string option"
  | Finish

text \<open>Modelled from the spec: the states of section 4.2 and the session errors of section 7.\<close>

datatype phase = awaiting_next_file | analyzing | awaiting_feedback | finished

datatype session_error = SessionClosed | InvalidTransition

text \<open>Modelled from the spec: the state a session is in, read off the fields of \<open>State\<close>.\<close>

definition phase_of :: "State \<Rightarrow> phase" where
  "phase_of s =
     (if completed s then finished
      else (case current_file s of
              None \<Rightarrow> awaiting_next_file
            | Some cf \<Rightarrow>
                (case analysis cf of None \<Rightarrow> analyzing | Some _ \<Rightarrow> awaiting_feedback)))"

text \<open>Modelled from the spec: changing the tracked files of one path.\<close>

definition mark_file :: "string \<Rightarrow> (FileItem \<Rightarrow> FileItem) \<Rightarrow> Basic \<Rightarrow> Basic" where
  "mark_file p change b =
     b\<lparr>files := map (\<lambda>f. if fi_path f = p then change f else f) (files b)\<rparr>"

text \<open>Modelled from the spec: the history entry of a decision.\<close>

definition entry :: "string \<Rightarrow> FeedbackAction \<Rightarrow> int \<Rightarrow> string option \<Rightarrow> HistoryEntry" where
  "entry p a now r = \<lparr>filePath = p, feedback_action = a, timestamp = now, he_reason = r\<rparr>"

text \<open>
  Modelled from the spec: \<^verbatim>\<open>apply_feedback\<close> of section 4.2, which the repository does
  not have. A consumed feedback is not retained (section 3).
\<close>

definition apply_feedback :: "int \<Rightarrow> Feedback \<Rightarrow> State \<Rightarrow> session_error + State" where
  "apply_feedback now fb s =
     (if completed s then Inl SessionClosed
      else
        (case current_file s of
           None \<Rightarrow> Inl InvalidTransition
         | Some cf \<Rightarrow>
             (case analysis cf of
                None \<Rightarrow> Inl InvalidTransition
              | Some _ \<Rightarrow>
                  (let p = cf_name cf in
                   case fb of
                     Accept note \<Rightarrow>
                       Inr (s\<lparr>basic := mark_file p (\<lambda>f. f\<lparr>status := Done\<rparr>) (basic s),
                              history := history s @ [entry p accept now note],
                              current_file := None,
                              user_feedback := None\<rparr>)
                   | Reject why \<Rightarrow>
                       Inr (s\<lparr>basic := mark_file p (\<lambda>f. f\<lparr>status := Ignored\<rparr>) (basic s),
                              history := history s @ [entry p reject now (Some why)],
                              current_file := None,
                              user_feedback := None\<rparr>)
                   | Refine u why override \<Rightarrow>
                       Inr (s\<lparr>basic :=
                                mark_file p
                                  (\<lambda>f. f\<lparr>status := Pending, fi_understanding := Some u\<rparr>)
                                  (basic s),
                              history := history s @ [entry p refine now why],
                              current_file := None,
                              next_file :=
                                (case override of
                                   None \<Rightarrow> None
                                 | Some q \<Rightarrow>
                                     Some \<lparr>nf_name = q,
                                           nf_reason = (case why of None \<Rightarrow> [] | Some w \<Rightarrow> w)\<rparr>),
                              user_feedback := None\<rparr>)
                   | Finish \<Rightarrow>
                       Inr (s\<lparr>history := history s @ [entry p finish now None],
                              completed := True,
                              user_feedback := None\<rparr>)))))"


section \<open>The claims' vocabulary\<close>

text \<open>
  The class of a match, for comparing scores: 4 exact file name, 3 file-name prefix,
  2 file-name substring, 1 path substring only, 0 none; all after \<^verbatim>\<open>str.lower\<close>.
\<close>

definition match_class :: "stdlib \<Rightarrow> string \<Rightarrow> string \<Rightarrow> string \<Rightarrow> nat" where
  "match_class lib path filename query =
     (if lower lib filename = lower lib query then 4
      else if startswith (lower lib filename) (lower lib query) then 3
      else if str_in (lower lib query) (lower lib filename) then 2
      else if str_in (lower lib query) (lower lib path) then 1
      else 0)"

text \<open>
  A tree entry that local search is specified to keep: a blob whose path ends with the
  extension, if one is given, and whose path or file name contains the query,
  case-insensitively.
\<close>

definition spec_matches :: "stdlib \<Rightarrow> string \<Rightarrow> SearchOptions \<Rightarrow> tree_entry \<Rightarrow> bool" where
  "spec_matches lib query opts item =
     (te_type item = ''blob''
      \<and> (case extension opts of None \<Rightarrow> True | Some ext \<Rightarrow> endswith (te_path item) ext)
      \<and> (str_in (lower lib query) (lower lib (te_path item))
           \<or> str_in (lower lib query) (lower lib (last (split CHR ''/'' (te_path item))))))"

definition sorted_by_score_desc :: "FileSearchResultModel list \<Rightarrow> bool" where
  "sorted_by_score_desc rs = sorted_wrt (\<lambda>a b. score_or_0 a \<ge> score_or_0 b) rs"

text \<open>A string that starts with a dot, said without \<open>startswith\<close>.\<close>

definition starts_with_dot :: "string \<Rightarrow> bool" where
  "starts_with_dot s = (case s of [] \<Rightarrow> False | ch # _ \<Rightarrow> ch = CHR ''.'')"

text \<open>
  An exception up to the text of a not-found message, the one text of
  \<^verbatim>\<open>read_file\<close> that quotes the revision.
\<close>

fun without_message :: "error \<Rightarrow> error" where
  "without_message (FileNotFoundError m) = FileNotFoundError []"
| "without_message e = e"

text \<open>
  The segments of a URL path: what stands between the slashes once the leading and
  trailing slashes are stripped, empty segments included.
\<close>

definition segments :: "string \<Rightarrow> string list" where
  "segments p = split CHR ''/'' (strip CHR ''/'' p)"

section \<open>A small repository\<close>

text \<open>
  \<^verbatim>\<open>str.lower\<close> on ASCII text, where it folds the capitals A to Z: the
  \<open>lower\<close> of the examples, whose strings are ASCII.
\<close>

definition ascii_lower_char :: "char \<Rightarrow> char" where
  "ascii_lower_char c =
     (case map_of (zip ''ABCDEFGHIJKLMNOPQRSTUVWXYZ'' ''abcdefghijklmnopqrstuvwxyz'') c of
        Some d \<Rightarrow> d
      | None \<Rightarrow> c)"

definition ascii_lower :: "string \<Rightarrow> string" where
  "ascii_lower s = map ascii_lower_char s"

text \<open>
  A provider with one repository \<^verbatim>\<open>o/r\<close>: a tree of five entries, the directory
  \<^verbatim>\<open>src\<close> and the file \<^verbatim>\<open>src/main.py\<close>; every other request is answered
  with a 404, which the connection raises as \<^verbatim>\<open>BadRequest\<close>.
\<close>

definition demo_tree :: "tree_entry list" where
  "demo_tree =
     [\<lparr>te_path = ''README.md'', te_type = ''blob'', te_size = Some 10, te_sha = None, te_url = None\<rparr>,
      \<lparr>te_path = ''src'', te_type = ''tree'', te_size = None, te_sha = None, te_url = None\<rparr>,
      \<lparr>te_path = ''src/domain.py'', te_type = ''blob'', te_size = Some 20, te_sha = None, te_url = None\<rparr>,
      \<lparr>te_path = ''src/main.py'', te_type = ''blob'', te_size = Some 30, te_sha = None, te_url = None\<rparr>,
      \<lparr>te_path = ''main.py'', te_type = ''blob'', te_size = Some 40, te_sha = None, te_url = None\<rparr>]"

definition demo_file :: contents_entry where
  "demo_file =
     \<lparr>ce_type = ''file'', ce_name = ''main.py'', ce_path = ''src/main.py'',
      ce_encoding = Some ''base64'', ce_content = Some ''aGk='', ce_sha = Some ''abc'',
      ce_size = Some 2, ce_url = Some ''u'', ce_git_url = Some ''g'', ce_html_url = Some ''h'',
      ce_download_url = None\<rparr>"

definition demo_subdir :: contents_entry where
  "demo_subdir =
     \<lparr>ce_type = ''dir'', ce_name = ''pkg'', ce_path = ''src/pkg'',
      ce_encoding = None, ce_content = None, ce_sha = Some ''def'',
      ce_size = Some 0, ce_url = Some ''v'', ce_git_url = Some ''g'', ce_html_url = Some ''h'',
      ce_download_url = None\<rparr>"

definition demo_connection :: "request \<Rightarrow> provider_exc + response" where
  "demo_connection req =
     (if endpoint req = ''/repos/o/r/git/trees/main'' then Inr (TreeObject (Some demo_tree))
      else if endpoint req = ''/repos/o/r/contents/src'' then
        Inr (ContentsArray [demo_file, demo_subdir])
      else if endpoint req = ''/repos/o/r/contents/src/main.py'' then
        Inr (ContentsObject demo_file)
      else Inl BadRequest)"

definition demo_client :: GitHubClient where
  "demo_client = GitHubClient_init demo_connection ''o'' ''r'' None ''main''"

definition demo_lib :: stdlib where
  "demo_lib = \<lparr>lower = ascii_lower,
               b64decode = (\<lambda>s. if s = ''aGk='' then Some ''hi'' else None),
               decode_utf8 = (\<lambda>b. Some b)\<rparr>"

definition demo_opts :: SearchOptions where
  "demo_opts = \<lparr>extension = Some ''.py'', max_results = 2, include_content = True,
                search_in_content = False\<rparr>"

definition demo_hit_main :: FileSearchResultModel where
  "demo_hit_main =
     \<lparr>fsr_path = ''src/main.py'', fsr_name = ''main.py'', fsr_type = ''file'',
      fsr_size = Some 30, fsr_content = Some ''hi'', fsr_sha = None, fsr_url = None,
      fsr_score = Some 104\<rparr>"

definition demo_hit_domain :: FileSearchResultModel where
  "demo_hit_domain =
     \<lparr>fsr_path = ''src/domain.py'', fsr_name = ''domain.py'', fsr_type = ''file'',
      fsr_size = Some 20, fsr_content = None, fsr_sha = None, fsr_url = None,
      fsr_score = Some 84\<rparr>"

text \<open>
  The URL of conmmand/reader.py, a URL with one path segment and a URL of another host,
  with the components \<^verbatim>\<open>urlparse\<close> gives for them.
\<close>

definition demo_urlparse :: "string \<Rightarrow> ParseResult" where
  "demo_urlparse url =
     (if url = ''https://github.com/langchain-ai/langgraph/'' then
        \<lparr>netloc = ''github.com'', url_path = ''/langchain-ai/langgraph/''\<rparr>
      else if url = ''https://github.com/langchain-ai'' then
        \<lparr>netloc = ''github.com'', url_path = ''/langchain-ai''\<rparr>
      else if url = ''https://gitlab.com/langchain-ai/langgraph'' then
        \<lparr>netloc = ''gitlab.com'', url_path = ''/langchain-ai/langgraph''\<rparr>
      else \<lparr>netloc = [], url_path = url\<rparr>)"

definition demo_conf :: AppConfig where
  "demo_conf = \<lparr>github = \<lparr>gc_token = ''t''\<rparr>\<rparr>"

text \<open>
  A session that waits for feedback on \<^verbatim>\<open>src/main.go\<close>, the scenario of
  section 8 of the specification.
\<close>

definition demo_state :: State where
  "demo_state =
     \<lparr>messages = [],
      basic = \<lparr>repo_name = ''r'', main_goal = ''read'',
               files = [\<lparr>fi_path = ''src/util.go'', status = Pending, fi_type = File,
                         fi_understanding = None\<rparr>,
                        \<lparr>fi_path = ''src/main.go'', status = Pending, fi_type = File,
                         fi_understanding = None\<rparr>],
               specific_areas = None, github_url = None, github_ref = None, ask_user = None,
               previous_wrong_path = None\<rparr>,
      history = [],
      current_file = Some \<lparr>cf_name = ''src/main.go'',
                            analysis = Some \<lparr>understanding = ''entry point''\<rparr>\<rparr>,
      next_file = None, user_feedback = None, reduced_output = None, completed = False,
      call_to_action = Some cta_user_feedback, last_heartbeat = None\<rparr>"

section \<open>Relevance score: theorems\<close>

lemma demo_lower: "lower demo_lib = ascii_lower"
  by (simp add: demo_lib_def)

lemmas str_eval = demo_lower ascii_lower_def ascii_lower_char_def str_count_def
  common_extensions_def endswith_def

lemma extension_bonus_flat:
  "extension_bonus exts filename score =
     score + (if list_ex (endswith filename) exts then 5 else 0)"
  by (induction exts) auto

lemma calculate_score_unfold:
  "calculate_score lib path filename query = spec_score lib path filename query"
  by (simp add: calculate_score_def spec_score_def match_points_def depth_bonus_def
      source_extension_bonus_def extension_bonus_flat Let_def)

lemma match_points_mono:
  "match_class lib p2 f2 q \<le> match_class lib p1 f1 q \<Longrightarrow>
   match_points lib p2 f2 q \<le> match_points lib p1 f1 q"
  by (simp add: match_class_def match_points_def split: if_splits)

lemma sort_results_stable:
  "filter (\<lambda>x. score_or_0 x = k) (sort_results results) = filter (\<lambda>x. score_or_0 x = k) results"
proof -
  have "filter (\<lambda>x. - score_or_0 x = - k) (sort_key (\<lambda>x. - score_or_0 x) results)
      = filter (\<lambda>x. - score_or_0 x = - k) results"
    by (rule sort_key_stable)
  then show ?thesis by (simp add: sort_results_def)
qed

text \<open>
  C3. Whatever function \<^verbatim>\<open>str.lower\<close> is, the score the code computes is the
  specified one: 100, 80, 60, 40 or 0 for the first of exact file name, file-name prefix,
  file-name substring, path substring that holds (after \<^verbatim>\<open>lower\<close> on both sides),
  plus \<open>max 0 (20 - slashes)\<close>, plus 5 once when the file name ends with one of the
  seven extensions. With equal depth and extension bonuses, a match of a higher class
  never scores lower. The sort keeps the results of equal score in their original order.
\<close>

theorem calculate_score_spec:
  "calculate_score lib path filename query = spec_score lib path filename query
   \<and> (depth_bonus p1 = depth_bonus p2 \<and> source_extension_bonus f1 = source_extension_bonus f2
        \<and> match_class lib p2 f2 query \<le> match_class lib p1 f1 query
      \<longrightarrow> calculate_score lib p2 f2 query \<le> calculate_score lib p1 f1 query)
   \<and> filter (\<lambda>x. score_or_0 x = k) (sort_results results)
       = filter (\<lambda>x. score_or_0 x = k) results"
proof (intro conjI impI)
  show "calculate_score lib path filename query = spec_score lib path filename query"
    by (rule calculate_score_unfold)
next
  assume a: "depth_bonus p1 = depth_bonus p2
      \<and> source_extension_bonus f1 = source_extension_bonus f2
      \<and> match_class lib p2 f2 query \<le> match_class lib p1 f1 query"
  then have "match_points lib p2 f2 query \<le> match_points lib p1 f1 query"
    by (simp add: match_points_mono)
  with a show "calculate_score lib p2 f2 query \<le> calculate_score lib p1 f1 query"
    by (simp add: calculate_score_unfold spec_score_def)
next
  show "filter (\<lambda>x. score_or_0 x = k) (sort_results results)
      = filter (\<lambda>x. score_or_0 x = k) results"
    by (rule sort_results_stable)
qed

theorem calculate_score_spec_witness:
  "depth_bonus ''src/main.py'' = depth_bonus ''lib/domain.py''
   \<and> source_extension_bonus ''main.py'' = source_extension_bonus ''domain.py''
   \<and> match_class demo_lib ''lib/domain.py'' ''domain.py'' ''MAIN''
       \<le> match_class demo_lib ''src/main.py'' ''main.py'' ''MAIN''
   \<and> calculate_score demo_lib ''src/main.py'' ''main.py'' ''MAIN'' = 104
   \<and> calculate_score demo_lib ''lib/domain.py'' ''domain.py'' ''MAIN'' = 84
   \<and> calculate_score demo_lib ''lib/domain.py'' ''domain.py'' ''MAIN''
       \<le> calculate_score demo_lib ''src/main.py'' ''main.py'' ''MAIN''"
proof -
  have h: "depth_bonus ''src/main.py'' = depth_bonus ''lib/domain.py''
      \<and> source_extension_bonus ''main.py'' = source_extension_bonus ''domain.py''
      \<and> match_class demo_lib ''lib/domain.py'' ''domain.py'' ''MAIN''
          \<le> match_class demo_lib ''src/main.py'' ''main.py'' ''MAIN''"
    by (simp add: depth_bonus_def source_extension_bonus_def match_class_def str_eval)
  have s1: "calculate_score demo_lib ''src/main.py'' ''main.py'' ''MAIN'' = 104"
    by (simp add: calculate_score_def str_eval)
  have s2: "calculate_score demo_lib ''lib/domain.py'' ''domain.py'' ''MAIN'' = 84"
    by (simp add: calculate_score_def str_eval)
  from calculate_score_spec [of demo_lib "''src/main.py''" "''main.py''" "''MAIN''"
      "''src/main.py''" "''lib/domain.py''" "''main.py''" "''domain.py''" 0 "[]"] h
  have "calculate_score demo_lib ''lib/domain.py'' ''domain.py'' ''MAIN''
      \<le> calculate_score demo_lib ''src/main.py'' ''main.py'' ''MAIN''"
    by blast
  with h s1 s2 show ?thesis by blast
qed

section \<open>The calls that pass params: theorems\<close>

lemma getitem_params_type_error: "params req = Some ps \<Longrightarrow> getitem c req = Inl TypeError"
  by (simp add: getitem_def)

lemma getitem_plain:
  "params req = None \<Longrightarrow>
   getitem c req = (case gh c req of Inl e \<Rightarrow> Inl (ProviderError e) | Inr data \<Rightarrow> Inr data)"
  by (simp add: getitem_def)

section \<open>Local search: theorems\<close>

lemma endswith_empty: "endswith s [] = True"
  by (simp add: endswith_def)

text \<open>
  The loop of lines 170-200 by itself, on a tree it is handed: started below the limit,
  it appends the results of the first entries that match, as many as the limit still
  allows.
\<close>

lemma scan_tree_take:
  "count < max_results opts \<Longrightarrow>
   scan_tree lib c query opts tree count results =
     results @ map (tree_item_result lib c query opts)
                 (take (nat (max_results opts - count))
                    (filter (spec_matches lib query opts) tree))"
proof (induction tree arbitrary: count results)
  case Nil
  then show ?case by simp
next
  case (Cons item tree)
  show ?case
  proof (cases "spec_matches lib query opts item")
    case False
    then have "scan_tree lib c query opts (item # tree) count results
             = scan_tree lib c query opts tree count results"
      by (auto simp: spec_matches_def Let_def endswith_empty split: option.splits)
    with False Cons show ?thesis by simp
  next
    case True
    then have step: "scan_tree lib c query opts (item # tree) count results
        = (if count + 1 \<ge> max_results opts
           then results @ [tree_item_result lib c query opts item]
           else scan_tree lib c query opts tree (count + 1)
                  (results @ [tree_item_result lib c query opts item]))"
      by (auto simp: spec_matches_def Let_def split: option.splits)
    show ?thesis
    proof (cases "count + 1 \<ge> max_results opts")
      case t: True
      with Cons.prems have "nat (max_results opts - count) = 1" by simp
      with step t True show ?thesis by simp
    next
      case f: False
      then have lt: "count + 1 < max_results opts" by simp
      have "nat (max_results opts - count) = Suc (nat (max_results opts - (count + 1)))"
        using lt by simp
      with step f True Cons.IH [OF lt] show ?thesis by simp
    qed
  qed
qed

lemma sorted_sort_results: "sorted_by_score_desc (sort_results rs)"
proof -
  have "sorted (map (\<lambda>x. - score_or_0 x) (sort_key (\<lambda>x. - score_or_0 x) rs))"
    by (rule sorted_sort_key)
  then show ?thesis
    by (simp add: sorted_by_score_desc_def sort_results_def sorted_map)
qed

lemma length_sort_results: "length (sort_results rs) = length rs"
  by (simp add: sort_results_def)

text \<open>
  The loop and the sort of lines 170-202, on a tree they are handed, with
  \<open>max_results \<ge> 1\<close>: the first \<open>max_results\<close> matching entries in tree order,
  scored and sorted by descending score. This is what the claim says of local search.
\<close>

lemma scan_and_sort_first_n:
  assumes "1 \<le> max_results opts"
  shows "sort_results (scan_tree lib c query opts tree 0 []) =
      sort_results (map (tree_item_result lib c query opts)
         (take (nat (max_results opts)) (filter (spec_matches lib query opts) tree)))
    \<and> int (length (sort_results (scan_tree lib c query opts tree 0 []))) \<le> max_results opts
    \<and> sorted_by_score_desc (sort_results (scan_tree lib c query opts tree 0 []))"
proof -
  have "scan_tree lib c query opts tree 0 [] =
      map (tree_item_result lib c query opts)
        (take (nat (max_results opts)) (filter (spec_matches lib query opts) tree))"
    using assms scan_tree_take [of 0 opts lib c query tree "[]"] by simp
  moreover have "int (length (take (nat (max_results opts))
      (filter (spec_matches lib query opts) tree))) \<le> max_results opts"
    using assms by simp
  ultimately show ?thesis
    by (simp add: sorted_sort_results length_sort_results)
qed

text \<open>
  On the tree of the small repository with \<open>max_results = 2\<close>: of the three
  matching entries the loop keeps the first two and the sort puts the better first; the
  third, \<^verbatim>\<open>main.py\<close> at the root, would score 105 and is never scored. The read
  of \<^verbatim>\<open>src/domain.py\<close> raises, and its result has no content.
\<close>

lemma demo_default_ref: "default_ref demo_client = ''main''"
  by (simp add: demo_client_def GitHubClient_init_def)

lemma demo_read_main:
  "read_file demo_lib demo_client ''src/main.py'' (Some ''main'') = Inr ''hi''"
  by (simp add: read_file_def read_file_request_def contents_endpoint_def demo_client_def
      GitHubClient_init_def demo_connection_def demo_file_def GitHubFileContentModel_init_def
      demo_lib_def ref_or_default_def getitem_def Let_def)

lemma demo_read_domain:
  "read_file demo_lib demo_client ''src/domain.py'' (Some ''main'')
     = Inl (ProviderError BadRequest)"
  by (simp add: read_file_def read_file_request_def contents_endpoint_def demo_client_def
      GitHubClient_init_def demo_connection_def ref_or_default_def getitem_def Let_def)

lemma demo_filter:
  "filter (spec_matches demo_lib ''main'' demo_opts) demo_tree =
     [\<lparr>te_path = ''src/domain.py'', te_type = ''blob'', te_size = Some 20, te_sha = None,
       te_url = None\<rparr>,
      \<lparr>te_path = ''src/main.py'', te_type = ''blob'', te_size = Some 30, te_sha = None,
       te_url = None\<rparr>,
      \<lparr>te_path = ''main.py'', te_type = ''blob'', te_size = Some 40, te_sha = None,
       te_url = None\<rparr>]"
  by (simp add: spec_matches_def demo_opts_def demo_tree_def str_eval)

lemma demo_items:
  "tree_item_result demo_lib demo_client ''main'' demo_opts
      \<lparr>te_path = ''src/domain.py'', te_type = ''blob'', te_size = Some 20, te_sha = None,
       te_url = None\<rparr> = demo_hit_domain"
  "tree_item_result demo_lib demo_client ''main'' demo_opts
      \<lparr>te_path = ''src/main.py'', te_type = ''blob'', te_size = Some 30, te_sha = None,
       te_url = None\<rparr> = demo_hit_main"
  by (simp_all add: tree_item_result_def fetch_content_def demo_default_ref demo_read_main
      demo_read_domain calculate_score_def str_eval Let_def demo_hit_main_def
      demo_hit_domain_def)
    (simp_all add: demo_opts_def)

lemma demo_scan_and_sort:
  "sort_results (scan_tree demo_lib demo_client ''main'' demo_opts demo_tree 0 [])
     = [demo_hit_main, demo_hit_domain]
   \<and> calculate_score demo_lib ''main.py'' ''main.py'' ''main'' = 105"
proof -
  have h: "1 \<le> max_results demo_opts" and m: "nat (max_results demo_opts) = 2"
    by (simp_all add: demo_opts_def)
  have "sort_results [demo_hit_domain, demo_hit_main] = [demo_hit_main, demo_hit_domain]"
    by (simp add: sort_results_def score_or_0_def demo_hit_main_def demo_hit_domain_def)
  moreover have "calculate_score demo_lib ''main.py'' ''main.py'' ''main'' = 105"
    by (simp add: calculate_score_def str_eval)
  ultimately show ?thesis
    using scan_and_sort_first_n [OF h, of demo_lib demo_client "''main''" demo_tree]
    by (simp add: demo_filter m demo_items)
qed

text \<open>
  C2. Local search asks for the tree with \<^verbatim>\<open>getitem(url, params={"recursive":
  "1"})\<close> (line 168). The connection's \<^verbatim>\<open>getitem\<close> has no such keyword, so for
  every client, query and options the search raises \<^verbatim>\<open>TypeError\<close> there and
  returns nothing; the loop and the sort the claim describes are never reached.
\<close>

theorem local_search_params_type_error:
  "params (tree_request c) = Some [(''recursive'', QStr ''1'')]
   \<and> search_files lib c query (opts\<lparr>search_in_content := False\<rparr>) = Inl TypeError"
  by (simp add: search_files_def tree_request_def getitem_def)

section \<open>Search with content: theorems\<close>

text \<open>
  The try/except of lines 154-161 and 191-196 by itself: a read that raises leaves no
  content, a read that returns leaves its text.
\<close>

lemma fetch_content_cases:
  "include_content opts \<Longrightarrow>
   fetch_content lib c opts path =
     (case read_file lib c path (Some (default_ref c)) of
        Inl e \<Rightarrow> None
      | Inr content \<Rightarrow> Some content)"
  by (simp add: fetch_content_def split: sum.splits)

lemma item_results_content:
  "fsr_content (tree_item_result lib c query opts item)
     = fetch_content lib c opts (te_path item)"
  "fsr_content (search_item_result lib c opts it) = fetch_content lib c opts (si_path it)"
  by (simp_all add: tree_item_result_def search_item_result_def Let_def)

text \<open>
  C6. With \<open>include_content\<close> set, in either mode, the search first lists with
  \<^verbatim>\<open>getitem(..., params=...)\<close> (lines 139 and 168), which raises
  \<^verbatim>\<open>TypeError\<close>: the search fails as a whole for every input, before there is
  an item whose content could be read.
\<close>

theorem search_with_content_params_type_error:
  "params (search_code_request c query (opts\<lparr>include_content := True\<rparr>)) \<noteq> None
   \<and> params (tree_request c) \<noteq> None
   \<and> search_files lib c query (opts\<lparr>include_content := True\<rparr>) = Inl TypeError"
  by (simp add: search_files_def tree_request_def search_code_request_def getitem_def Let_def
      split: option.splits)

section \<open>SearchOptions: theorems\<close>

lemma startswith_dot: "startswith s ''.'' = starts_with_dot s"
  by (cases s) (simp_all add: starts_with_dot_def)

text \<open>
  C5. Constructing the options succeeds, with the values given, exactly when the
  extension is absent or starts with a dot and \<open>max_results\<close> is at least 1; every
  other construction fails with the validation error.
\<close>

theorem SearchOptions_validation:
  "SearchOptions_init ext mr ic sic =
     (if (case ext of None \<Rightarrow> True | Some e \<Rightarrow> starts_with_dot e) \<and> 1 \<le> mr
      then Inr \<lparr>extension = ext, max_results = mr, include_content = ic,
                search_in_content = sic\<rparr>
      else Inl ValidationError)"
  by (cases ext)
    (simp_all add: SearchOptions_init_def extension_must_start_with_dot_def startswith_dot)

section \<open>read_file: theorems\<close>

text \<open>
  C10. For any two values of \<open>ref\<close>, \<^verbatim>\<open>read_file\<close> issues the same request,
  which carries no revision, and ends the same way: with the same text, or with the same
  exception up to the text of the not-found message.
\<close>

theorem read_file_ignores_ref:
  "read_file_request c path ref1 = read_file_request c path ref2
   \<and> params (read_file_request c path ref1) = None
   \<and> map_sum without_message id (read_file lib c path ref1)
       = map_sum without_message id (read_file lib c path ref2)
   \<and> (read_file lib c path ref1 = Inr text) = (read_file lib c path ref2 = Inr text)"
proof -
  have r: "read_file_request c path ref1 = read_file_request c path ref2"
    by (simp add: read_file_request_def Let_def)
  have p: "params (read_file_request c path ref1) = None"
    by (simp add: read_file_request_def Let_def)
  have m: "map_sum without_message id (read_file lib c path ref1)
       = map_sum without_message id (read_file lib c path ref2)"
    by (simp add: read_file_def r Let_def
        split: sum.splits error.splits provider_exc.splits option.splits)
  have "(read_file lib c path ref1 = Inr text) = (read_file lib c path ref2 = Inr text)"
    by (simp add: read_file_def r Let_def
        split: sum.splits error.splits provider_exc.splits option.splits)
  with r p m show ?thesis by blast
qed

text \<open>
  What \<^verbatim>\<open>read_file\<close> does on a single object that has every field of
  \<^verbatim>\<open>GitHubFileContentModel\<close>; on the exception it catches; and on a path that
  does not exist, which the connection reports as \<^verbatim>\<open>BadRequest\<close> and the
  \<^verbatim>\<open>except\<close> clause lets through.
\<close>

lemma read_file_request_plain: "params (read_file_request c path ref) = None"
  by (simp add: read_file_request_def Let_def)

lemma read_file_single_object:
  assumes "gh c (read_file_request c path ref) = Inr (ContentsObject e)"
    and "GitHubFileContentModel_init (ContentsObject e) = Inr f"
  shows "read_file lib c path ref =
     (if gf_type f \<noteq> ''file'' then
        Inl (ValueError (''Path '' @ path @ '' is not a file, got type '' @ gf_type f))
      else if gf_encoding f \<noteq> ''base64'' then
        Inl (ValueError (''Unsupported encoding: '' @ gf_encoding f))
      else (case b64decode lib (gf_content f) of
              None \<Rightarrow> Inl BinasciiError
            | Some bytes \<Rightarrow>
                (case decode_utf8 lib bytes of
                   None \<Rightarrow> Inl UnicodeDecodeError
                 | Some str \<Rightarrow> Inr str)))"
  using assms by (simp add: read_file_def getitem_plain read_file_request_plain Let_def)

lemma read_file_not_found:
  assumes "gh c (read_file_request c path ref) = Inl GraphQLException"
  shows "\<exists>msg. read_file lib c path ref = Inl (FileNotFoundError msg)"
  using assms by (simp add: read_file_def getitem_plain read_file_request_plain Let_def)

lemma read_file_bad_request:
  assumes "gh c (read_file_request c path ref) = Inl BadRequest"
  shows "read_file lib c path ref = Inl (ProviderError BadRequest)"
  using assms by (simp add: read_file_def getitem_plain read_file_request_plain Let_def)

text \<open>
  C1. The contents endpoint answers a directory with an array (lines 216-218). On the
  small repository \<^verbatim>\<open>read_file\<close> of the directory \<^verbatim>\<open>src\<close> ends in the
  \<^verbatim>\<open>TypeError\<close> of unpacking the array at line 115, before the check of the type
  at line 116 that raises the not-a-file error.
\<close>

theorem read_file_directory_type_error:
  "gh demo_client (read_file_request demo_client ''src'' None)
      = Inr (ContentsArray [demo_file, demo_subdir])
   \<and> read_file demo_lib demo_client ''src'' None = Inl TypeError"
  by (simp add: read_file_def read_file_request_def contents_endpoint_def demo_client_def
      GitHubClient_init_def demo_connection_def GitHubFileContentModel_init_def
      ref_or_default_def getitem_def Let_def)

section \<open>get_directory_structure: theorems\<close>

text \<open>
  What the code after the call does with an answer (lines 216-250): one entry per
  element of an array, one entry for a single object, each with the name, path, size,
  hash and URL of the provider's entry and the tag \<^verbatim>\<open>file\<close> or
  \<^verbatim>\<open>directory\<close>.
\<close>

lemma entry_result_fields:
  "fsr_name (entry_result e) = ce_name e \<and> fsr_path (entry_result e) = ce_path e
   \<and> fsr_type (entry_result e) = (if ce_type e = ''file'' then ''file'' else ''directory'')
   \<and> fsr_size (entry_result e) = ce_size e \<and> fsr_sha (entry_result e) = ce_sha e
   \<and> fsr_url (entry_result e) = ce_url e"
  by (simp add: entry_result_def Let_def)

text \<open>
  C7. \<^verbatim>\<open>get_directory_structure\<close> asks with \<^verbatim>\<open>getitem(endpoint,
  params={"ref": ref})\<close> (line 213). The connection's \<^verbatim>\<open>getitem\<close> has no such
  keyword, so for every client, path and revision, resolving or not, the call raises
  \<^verbatim>\<open>TypeError\<close>: it returns no listing and raises no not-found error.
\<close>

theorem get_directory_structure_params_type_error:
  "params (directory_request c path ref) = Some [(''ref'', QStr (ref_or_default c ref))]
   \<and> get_directory_structure c path ref = Inl TypeError"
  by (simp add: get_directory_structure_def directory_request_def getitem_def Let_def)

section \<open>CodeSourceService.new: theorems\<close>

text \<open>
  C8. For the source \<^verbatim>\<open>github\<close>: a URL whose host is not \<^verbatim>\<open>github.com\<close> or
  whose path has fewer than two segments makes \<^verbatim>\<open>new\<close> raise
  \<^verbatim>\<open>ValueError\<close>, so no client is built; every other URL gives a service whose
  client has the first two segments as owner and repository, the given revision as
  default and the connection it was given.
\<close>

theorem new_github_url:
  "(netloc (urlparse url) \<noteq> ''github.com'' \<or> length (segments (url_path (urlparse url))) < 2
      \<longrightarrow> (\<exists>msg. new urlparse connection conf ''github'' url ref = Inl (ValueError msg)))
   \<and> (netloc (urlparse url) = ''github.com''
        \<and> 2 \<le> length (segments (url_path (urlparse url)))
      \<longrightarrow> (\<exists>svc. new urlparse connection conf ''github'' url ref = Inr svc
            \<and> owner (code_client svc) = segments (url_path (urlparse url)) ! 0
            \<and> repo (code_client svc) = segments (url_path (urlparse url)) ! 1
            \<and> default_ref (code_client svc) = ref
            \<and> gh (code_client svc) = connection))"
proof (intro conjI impI)
  assume "netloc (urlparse url) \<noteq> ''github.com''
      \<or> length (segments (url_path (urlparse url))) < 2"
  then show "\<exists>msg. new urlparse connection conf ''github'' url ref = Inl (ValueError msg)"
    by (auto simp: new_def segments_def Let_def)
next
  assume a: "netloc (urlparse url) = ''github.com''
      \<and> 2 \<le> length (segments (url_path (urlparse url)))"
  then obtain x y rest where s: "segments (url_path (urlparse url)) = x # y # rest"
    by (cases "segments (url_path (urlparse url))";
        cases "tl (segments (url_path (urlparse url)))") auto
  with a show "\<exists>svc. new urlparse connection conf ''github'' url ref = Inr svc
            \<and> owner (code_client svc) = segments (url_path (urlparse url)) ! 0
            \<and> repo (code_client svc) = segments (url_path (urlparse url)) ! 1
            \<and> default_ref (code_client svc) = ref
            \<and> gh (code_client svc) = connection"
    using s by (simp add: new_def Let_def GitHubClient_init_def segments_def [symmetric])
qed

lemma demo_segments:
  "segments ''/langchain-ai/langgraph/'' = [''langchain-ai'', ''langgraph'']"
  "segments ''/langchain-ai'' = [''langchain-ai'']"
  by (simp_all add: segments_def strip_def lstrip_def)

theorem new_github_url_witness:
  "netloc (demo_urlparse ''https://github.com/langchain-ai/langgraph/'') = ''github.com''
   \<and> 2 \<le> length (segments (url_path (demo_urlparse ''https://github.com/langchain-ai/langgraph/'')))
   \<and> (\<exists>svc. new demo_urlparse demo_connection demo_conf ''github''
               ''https://github.com/langchain-ai/langgraph/'' ''main'' = Inr svc
          \<and> owner (code_client svc) = ''langchain-ai''
          \<and> repo (code_client svc) = ''langgraph'')
   \<and> length (segments (url_path (demo_urlparse ''https://github.com/langchain-ai''))) < 2
   \<and> (\<exists>msg. new demo_urlparse demo_connection demo_conf ''github''
               ''https://github.com/langchain-ai'' ''main'' = Inl (ValueError msg))
   \<and> netloc (demo_urlparse ''https://gitlab.com/langchain-ai/langgraph'') \<noteq> ''github.com''
   \<and> (\<exists>msg. new demo_urlparse demo_connection demo_conf ''github''
               ''https://gitlab.com/langchain-ai/langgraph'' ''main'' = Inl (ValueError msg))"
proof -
  have u1: "demo_urlparse ''https://github.com/langchain-ai/langgraph/''
      = \<lparr>netloc = ''github.com'', url_path = ''/langchain-ai/langgraph/''\<rparr>"
    and u2: "demo_urlparse ''https://github.com/langchain-ai''
      = \<lparr>netloc = ''github.com'', url_path = ''/langchain-ai''\<rparr>"
    and u3: "demo_urlparse ''https://gitlab.com/langchain-ai/langgraph''
      = \<lparr>netloc = ''gitlab.com'', url_path = ''/langchain-ai/langgraph''\<rparr>"
    by (simp_all add: demo_urlparse_def)
  note a = new_github_url [of demo_urlparse "''https://github.com/langchain-ai/langgraph/''"
      demo_connection demo_conf "''main''"]
  note b = new_github_url [of demo_urlparse "''https://github.com/langchain-ai''"
      demo_connection demo_conf "''main''"]
  note c = new_github_url [of demo_urlparse "''https://gitlab.com/langchain-ai/langgraph''"
      demo_connection demo_conf "''main''"]
  have h1: "netloc (demo_urlparse ''https://github.com/langchain-ai/langgraph/'') = ''github.com''
      \<and> 2 \<le> length (segments (url_path
            (demo_urlparse ''https://github.com/langchain-ai/langgraph/'')))"
    by (simp add: u1 demo_segments)
  have h2: "length (segments (url_path (demo_urlparse ''https://github.com/langchain-ai''))) < 2"
    by (simp add: u2 demo_segments)
  have h3: "netloc (demo_urlparse ''https://gitlab.com/langchain-ai/langgraph'') \<noteq> ''github.com''"
    by (simp add: u3)
  from a h1 have 1: "\<exists>svc. new demo_urlparse demo_connection demo_conf ''github''
               ''https://github.com/langchain-ai/langgraph/'' ''main'' = Inr svc
          \<and> owner (code_client svc) = ''langchain-ai''
          \<and> repo (code_client svc) = ''langgraph''"
    by (auto simp: u1 demo_segments)
  from b h2 have 2: "\<exists>msg. new demo_urlparse demo_connection demo_conf ''github''
               ''https://github.com/langchain-ai'' ''main'' = Inl (ValueError msg)"
    by blast
  from c h3 have 3: "\<exists>msg. new demo_urlparse demo_connection demo_conf ''github''
               ''https://gitlab.com/langchain-ai/langgraph'' ''main'' = Inl (ValueError msg)"
    by blast
  from h1 h2 h3 1 2 3 show ?thesis by blast
qed


section \<open>Feedback: theorems\<close>

text \<open>
  C9, as stated, at one call: the constructor of the reject class accepts the tag
  \<^verbatim>\<open>accept\<close> and \<^verbatim>\<open>None\<close> for the reason, and the value built has none of
  the four shapes.
\<close>

theorem feedback_unchecked_counterexample:
  "UserFeedbackReject_init (Some (PyStr ''accept'')) (Some PyNone)
      = Inr (UserFeedbackReject (PyStr ''accept'') PyNone)
   \<and> \<not> well_shaped (UserFeedbackReject (PyStr ''accept'') PyNone)"
  by (simp add: UserFeedbackReject_init_def is_str_def)

text \<open>
  C9, amended. Each of the four constructors succeeds exactly when the fields without a
  default are passed (the tag in all four, the reason of a reject, the understanding of a
  refine), stores the values as passed and \<^verbatim>\<open>None\<close> for an optional field left
  out, and checks no value: what it builds has its annotated shape exactly when the
  values passed have the annotated types.
\<close>

theorem feedback_construction:
  "(\<exists>fb. UserFeedbackAccept_init a r = Inr fb) = (a \<noteq> None)
   \<and> (\<exists>fb. UserFeedbackReject_init a r = Inr fb) = (a \<noteq> None \<and> r \<noteq> None)
   \<and> (\<exists>fb. UserFeedbackRefine_init a u r n = Inr fb) = (a \<noteq> None \<and> u \<noteq> None)
   \<and> (\<exists>fb. UserFeedbackFinish_init a = Inr fb) = (a \<noteq> None)
   \<and> UserFeedbackAccept_init (Some av) r = Inr (UserFeedbackAccept av (default_None r))
   \<and> UserFeedbackReject_init (Some av) (Some rv) = Inr (UserFeedbackReject av rv)
   \<and> UserFeedbackRefine_init (Some av) (Some uv) r n
       = Inr (UserFeedbackRefine av uv (default_None r) (default_None n))
   \<and> UserFeedbackFinish_init (Some av) = Inr (UserFeedbackFinish av)
   \<and> default_None None = PyNone \<and> default_None (Some v) = v
   \<and> map_sum id well_shaped (UserFeedbackAccept_init (Some av) r)
       = Inr (av = PyStr ''accept'' \<and> is_optional_str (default_None r))
   \<and> map_sum id well_shaped (UserFeedbackReject_init (Some av) (Some rv))
       = Inr (av = PyStr ''reject'' \<and> is_str rv)
   \<and> map_sum id well_shaped (UserFeedbackRefine_init (Some av) (Some uv) r n)
       = Inr (av = PyStr ''refine'' \<and> is_str uv \<and> is_optional_str (default_None r)
              \<and> is_optional_str (default_None n))
   \<and> map_sum id well_shaped (UserFeedbackFinish_init (Some av)) = Inr (av = PyStr ''finish'')"
  by (auto simp: UserFeedbackAccept_init_def UserFeedbackReject_init_def
      UserFeedbackRefine_init_def UserFeedbackFinish_init_def default_None_def
      split: option.splits)

text \<open>
  C4. In a session that awaits feedback on its current file, accepting succeeds; it
  marks the tracked files of the current file's path as done and leaves the others as
  they are, appends one history entry of kind accept for that path, clears the current
  file, and leaves the session awaiting the next file.
\<close>

theorem apply_feedback_accept:
  assumes "phase_of s = awaiting_feedback" and "current_file s = Some cf"
  shows "\<exists>s'. apply_feedback now (Accept note) s = Inr s'
     \<and> files (basic s') =
         map (\<lambda>f. if fi_path f = cf_name cf then f\<lparr>status := Done\<rparr> else f) (files (basic s))
     \<and> (\<exists>h. history s' = history s @ [h] \<and> feedback_action h = accept
             \<and> filePath h = cf_name cf)
     \<and> current_file s' = None
     \<and> phase_of s' = awaiting_next_file"
proof -
  from assms have nc: "\<not> completed s" and an: "analysis cf \<noteq> None"
    by (auto simp: phase_of_def split: if_splits option.splits)
  then obtain a where a: "analysis cf = Some a" by auto
  show ?thesis
    using nc a assms(2)
    by (simp add: apply_feedback_def mark_file_def entry_def phase_of_def Let_def)
qed

theorem apply_feedback_accept_witness:
  "phase_of demo_state = awaiting_feedback
   \<and> current_file demo_state
       = Some \<lparr>cf_name = ''src/main.go'', analysis = Some \<lparr>understanding = ''entry point''\<rparr>\<rparr>
   \<and> map_sum id (\<lambda>s'. (map status (files (basic s')), map feedback_action (history s'),
                         current_file s', phase_of s'))
        (apply_feedback 7 (Accept None) demo_state)
       = Inr ([Pending, Done], [accept], None, awaiting_next_file)"
proof -
  have h1: "phase_of demo_state = awaiting_feedback"
    by (simp add: phase_of_def demo_state_def)
  have h2: "current_file demo_state
       = Some \<lparr>cf_name = ''src/main.go'', analysis = Some \<lparr>understanding = ''entry point''\<rparr>\<rparr>"
    by (simp add: demo_state_def)
  from apply_feedback_accept [OF h1 h2, of 7 None]
  obtain s' where s: "apply_feedback 7 (Accept None) demo_state = Inr s'"
    and f: "files (basic s') =
         map (\<lambda>f. if fi_path f = ''src/main.go'' then f\<lparr>status := Done\<rparr> else f)
           (files (basic demo_state))"
    and h: "\<exists>h. history s' = history demo_state @ [h] \<and> feedback_action h = accept
             \<and> filePath h = ''src/main.go''"
    and c: "current_file s' = None" and p: "phase_of s' = awaiting_next_file"
    by auto
  from f have "map status (files (basic s')) = [Pending, Done]"
    by (simp add: demo_state_def)
  moreover from h have "map feedback_action (history s') = [accept]"
    by (auto simp: demo_state_def)
  ultimately show ?thesis using h1 h2 s c p by simp
qed

end
